theory Spec2Isabelle
  imports Main
begin

section \<open>Python values, exceptions and the helpers imported by serializable.py\<close>

text \<open>
  The module \<^verbatim>\<open>syft/core/common/serde/serializable.py\<close> defines the decorator
  \<^verbatim>\<open>bind_protobuf\<close> and the base class \<^verbatim>\<open>Serializable\<close>. A Python call either
  returns a value or raises; a call is modelled by a result of type \<open>exn + 'a\<close>, with
  \<open>Inl\<close> for the exception raised. Python \<^verbatim>\<open>bytes\<close> are lists of 8-bit characters.
\<close>

type_synonym bytes = "char list"

text \<open>The Python values that flow through \<^verbatim>\<open>serialize\<close>: \<open>'m\<close> is the type of
  protobuf message objects (instances of \<^verbatim>\<open>google.protobuf.message.Message\<close>).\<close>

datatype 'm pyval = PyNone | PyInt int | PyStr string | PyBytes bytes | PyMsg 'm

text \<open>The exceptions. \<open>NoModeSpecified\<close> is the \<^verbatim>\<open>Exception\<close> that \<^verbatim>\<open>serialize\<close>
  builds with the message "You must specify at least one deserialization format ...";
  \<open>AttributeError\<close> is what Python raises for a method call or an attribute read on an
  object without that method or attribute; \<open>OtherError\<close> stands for whatever else an
  overriding method or a property raises.\<close>

datatype exn =
    NotImplementedError
  | NoModeSpecified
  | TypeMismatch
  | AttributeError
  | MalformedEnvelope
  | UnknownType
  | AmbiguousType
  | OtherError string

text \<open>Modelled from the spec: \<^verbatim>\<open>syft.logger.traceback_and_raise\<close> is imported by
  serializable.py and is not part of it. The spec says that the base contract methods
  "fail with NotImplemented" and that serialize "fails with NoModeSpecified": the helper
  raises the exception it is given and never returns.\<close>

definition traceback_and_raise :: "exn \<Rightarrow> exn + 'a" where
  "traceback_and_raise e = Inl e"

text \<open>The two types the convenience wrappers validate against.\<close>

datatype pytype = Message | Bytes

fun isinstance :: "'m pyval \<Rightarrow> pytype \<Rightarrow> bool" where
  "isinstance (PyMsg m) Message = True"
| "isinstance (PyBytes b) Bytes = True"
| "isinstance v t = False"

text \<open>Modelled from the spec: \<^verbatim>\<open>syft.util.validate_type\<close> is imported by
  serializable.py and is not part of it. The spec says the wrappers "assert the returned
  value's runtime shape matches the expected output type, failing with TypeMismatch if
  not"; the wrappers return what it returns.\<close>

definition validate_type :: "'m pyval \<Rightarrow> pytype \<Rightarrow> exn + 'm pyval" where
  "validate_type object t = (if isinstance object t then Inr object else traceback_and_raise TypeMismatch)"

text \<open>The envelope message \<^verbatim>\<open>DataMessage(obj_type=..., content=...)\<close>.\<close>

record DataMessage =
  obj_type :: string
  content :: bytes

text \<open>The protobuf runtime is third-party code: \<open>SerializeToString\<close> of a payload
  message and of the envelope are parameters of the model.\<close>

record 'm protobuf =
  SerializeToString :: "'m \<Rightarrow> exn + bytes"
  DataMessage_SerializeToString :: "DataMessage \<Rightarrow> bytes"

text \<open>\<^verbatim>\<open>v.SerializeToString()\<close> on an arbitrary Python value: only a message has
  the method.\<close>

fun call_SerializeToString :: "'m protobuf \<Rightarrow> 'm pyval \<Rightarrow> exn + bytes" where
  "call_SerializeToString pb (PyMsg m) = SerializeToString pb m"
| "call_SerializeToString pb v = Inl AttributeError"

section \<open>Classes and instances\<close>

text \<open>
  A class deriving from \<^verbatim>\<open>Serializable\<close> is its module and name together with the
  contract methods it overrides (\<open>None\<close>: not overridden, the base version runs).
  \<open>'o\<close> is the type of the Python objects of the class, \<open>'d\<close> the type of schema
  descriptors (the generated protobuf classes); a wrapped type is given by its name.
  The two static methods without argument are given by their result.
\<close>

record ('o, 'm, 'd) klass =
  cls_module :: string
  cls_name :: string
  object2proto_ovr :: "('o \<Rightarrow> exn + 'm pyval) option"
  proto2object_ovr :: "('m pyval \<Rightarrow> exn + 'o) option"
  get_protobuf_schema_ovr :: "(exn + 'd) option"
  get_wrapped_type_ovr :: "(exn + string) option"

text \<open>The attribute of an object that the base class reads: \<open>name\<close> is the outcome
  of evaluating \<^verbatim>\<open>self.name\<close>, which runs the attribute's getter (a stored attribute, a
  property, \<^verbatim>\<open>__getattr__\<close>): \<open>Inr v\<close> when the read returns \<open>v\<close>,
  \<open>Inl AttributeError\<close> when the object has no such attribute or the getter raises
  AttributeError, \<open>Inl e\<close> when the getter raises another exception \<open>e\<close>. Concrete
  classes extend the record with their own fields.\<close>

record 'm pyobject =
  name :: "exn + 'm pyval"

text \<open>An instance: the object together with its class.\<close>

record ('o, 'm, 'd) serializable =
  klass_of :: "('o, 'm, 'd) klass"
  self :: 'o

text \<open>Modelled from the spec: \<^verbatim>\<open>syft.util.get_fully_qualified_name\<close> is imported by
  serializable.py and is not part of it. The spec calls its result the "fully-qualified
  type name of the original instance", as in \<^verbatim>\<open>pkg.Point\<close>.\<close>

definition get_fully_qualified_name :: "('o, 'm, 'd) serializable \<Rightarrow> string" where
  "get_fully_qualified_name obj = cls_module (klass_of obj) @ ''.'' @ cls_name (klass_of obj)"

subsection \<open>The contract methods, with dynamic dispatch\<close>

text \<open>\<^verbatim>\<open>Serializable._proto2object\<close>, \<^verbatim>\<open>_object2proto\<close>, \<^verbatim>\<open>get_protobuf_schema\<close>
  and \<^verbatim>\<open>get_wrapped_type\<close>: each body is \<^verbatim>\<open>traceback_and_raise(NotImplementedError)\<close>.\<close>

definition Serializable_proto2object :: "'m pyval \<Rightarrow> exn + 'o" where
  "Serializable_proto2object proto = traceback_and_raise NotImplementedError"

definition Serializable_object2proto :: "'o \<Rightarrow> exn + 'm pyval" where
  "Serializable_object2proto slf = traceback_and_raise NotImplementedError"

definition Serializable_get_protobuf_schema :: "exn + 'd" where
  "Serializable_get_protobuf_schema = traceback_and_raise NotImplementedError"

definition Serializable_get_wrapped_type :: "exn + string" where
  "Serializable_get_wrapped_type = traceback_and_raise NotImplementedError"

text \<open>\<^verbatim>\<open>cls._proto2object(proto)\<close>, \<^verbatim>\<open>self._object2proto()\<close>,
  \<^verbatim>\<open>cls.get_protobuf_schema()\<close>, \<^verbatim>\<open>cls.get_wrapped_type()\<close>: the override when the
  class has one, the base method otherwise.\<close>

definition proto2object :: "('o, 'm, 'd) klass \<Rightarrow> 'm pyval \<Rightarrow> exn + 'o" where
  "proto2object cls proto =
     (case proto2object_ovr cls of None \<Rightarrow> Serializable_proto2object proto | Some f \<Rightarrow> f proto)"

definition object2proto :: "('o, 'm, 'd) serializable \<Rightarrow> exn + 'm pyval" where
  "object2proto s =
     (case object2proto_ovr (klass_of s) of
        None \<Rightarrow> Serializable_object2proto (self s)
      | Some f \<Rightarrow> f (self s))"

definition get_protobuf_schema :: "('o, 'm, 'd) klass \<Rightarrow> exn + 'd" where
  "get_protobuf_schema cls =
     (case get_protobuf_schema_ovr cls of None \<Rightarrow> Serializable_get_protobuf_schema | Some r \<Rightarrow> r)"

definition get_wrapped_type :: "('o, 'm, 'd) klass \<Rightarrow> exn + string" where
  "get_wrapped_type cls =
     (case get_wrapped_type_ovr cls of None \<Rightarrow> Serializable_get_wrapped_type | Some r \<Rightarrow> r)"

subsection \<open>The property \<^verbatim>\<open>named\<close>\<close>

text \<open>\<^verbatim>\<open>hasattr(self, "name")\<close> reads the attribute: it is true when the read
  returns, false when the read raises AttributeError, and it lets any other exception
  through.\<close>

definition hasattr_name :: "('m, 'z) pyobject_scheme \<Rightarrow> exn + bool" where
  "hasattr_name slf =
     (case name slf of
        Inr v \<Rightarrow> Inr True
      | Inl e \<Rightarrow> if e = AttributeError then Inr False else Inl e)"

text \<open>\<^verbatim>\<open>if hasattr(self, "name"): return self.name else: return "UNNAMED"\<close>\<close>

definition named :: "(('m, 'z) pyobject_scheme, 'm, 'd) serializable \<Rightarrow> exn + 'm pyval" where
  "named s =
     (case hasattr_name (self s) of
        Inl e \<Rightarrow> Inl e
      | Inr has \<Rightarrow> if has then name (self s) else Inr (PyStr ''UNNAMED''))"

subsection \<open>\<^verbatim>\<open>serialize\<close> and the convenience wrappers\<close>

text \<open>
  \<^verbatim>\<open>serialize(self, to_proto=True, to_bytes=False)\<close>: the \<^verbatim>\<open>to_bytes\<close> branch is tested
  first, then \<^verbatim>\<open>to_proto\<close>, then the exception. The call of \<^verbatim>\<open>debug\<close> only logs.
\<close>

definition serialize ::
  "'m protobuf \<Rightarrow> ('o, 'm, 'd) serializable \<Rightarrow> bool \<Rightarrow> bool \<Rightarrow> exn + 'm pyval" where
  "serialize pb s to_proto to_bytes =
     (if to_bytes then
        (case object2proto s of
           Inl e \<Rightarrow> Inl e
         | Inr p \<Rightarrow>
            (case call_SerializeToString pb p of
               Inl e \<Rightarrow> Inl e
             | Inr serialized_data \<Rightarrow>
                 (let blob = \<lparr>obj_type = get_fully_qualified_name s, content = serialized_data\<rparr>
                  in Inr (PyBytes (DataMessage_SerializeToString pb blob)))))
      else if to_proto then object2proto s
      else traceback_and_raise NoModeSpecified)"

text \<open>\<^verbatim>\<open>validate_type(self.serialize(to_proto=True), Message)\<close>: the default
  \<^verbatim>\<open>to_bytes=False\<close> applies. An exception of \<^verbatim>\<open>serialize\<close> propagates.\<close>

definition to_proto :: "'m protobuf \<Rightarrow> ('o, 'm, 'd) serializable \<Rightarrow> exn + 'm pyval" where
  "to_proto pb s =
     (case serialize pb s True False of Inl e \<Rightarrow> Inl e | Inr v \<Rightarrow> validate_type v Message)"

definition proto :: "'m protobuf \<Rightarrow> ('o, 'm, 'd) serializable \<Rightarrow> exn + 'm pyval" where
  "proto pb s =
     (case serialize pb s True False of Inl e \<Rightarrow> Inl e | Inr v \<Rightarrow> validate_type v Message)"

text \<open>\<^verbatim>\<open>validate_type(self.serialize(to_bytes=True), bytes)\<close>: the default
  \<^verbatim>\<open>to_proto=True\<close> applies, so both flags are set.\<close>

definition to_bytes :: "'m protobuf \<Rightarrow> ('o, 'm, 'd) serializable \<Rightarrow> exn + 'm pyval" where
  "to_bytes pb s =
     (case serialize pb s True True of Inl e \<Rightarrow> Inl e | Inr v \<Rightarrow> validate_type v Bytes)"

definition binary :: "'m protobuf \<Rightarrow> ('o, 'm, 'd) serializable \<Rightarrow> exn + 'm pyval" where
  "binary pb s =
     (case serialize pb s True True of Inl e \<Rightarrow> Inl e | Inr v \<Rightarrow> validate_type v Bytes)"

section \<open>\<^verbatim>\<open>bind_protobuf\<close>\<close>

text \<open>
  The decorator writes the attribute \<^verbatim>\<open>schema2type\<close> of the descriptor its class
  returns. The store gives, for each descriptor, the state of that attribute:
  \<open>None\<close> when the descriptor has no such attribute, \<open>Some None\<close> when the attribute is
  Python's \<^verbatim>\<open>None\<close>, \<open>Some (Some cls)\<close> when it is the class \<open>cls\<close>.
\<close>

type_synonym ('d, 'c) schema_store = "'d \<Rightarrow> 'c option option"

definition hasattr_schema2type :: "('d, 'c) schema_store \<Rightarrow> 'd \<Rightarrow> bool" where
  "hasattr_schema2type st protobuf_schema = (st protobuf_schema \<noteq> None)"

definition bind_protobuf ::
  "('d, ('o, 'm, 'd) klass) schema_store \<Rightarrow> ('o, 'm, 'd) klass
     \<Rightarrow> exn + (('d, ('o, 'm, 'd) klass) schema_store \<times> ('o, 'm, 'd) klass)" where
  "bind_protobuf st cls =
     (case get_protobuf_schema cls of
        Inl e \<Rightarrow> Inl e
      | Inr protobuf_schema \<Rightarrow>
          if hasattr_schema2type st protobuf_schema
          then Inr (st(protobuf_schema := Some None), cls)
          else Inr (st(protobuf_schema := Some (Some cls)), cls))"

text \<open>The store in which no descriptor has the attribute yet, and a sequence of
  registrations run from a store. A call that raises does so before any write, and
  leaves the store as it was.\<close>

definition no_schema2type :: "('d, 'c) schema_store" where
  "no_schema2type = (\<lambda>d. None)"

fun bind_all ::
  "('d, ('o, 'm, 'd) klass) schema_store \<Rightarrow> ('o, 'm, 'd) klass list
     \<Rightarrow> ('d, ('o, 'm, 'd) klass) schema_store" where
  "bind_all st [] = st"
| "bind_all st (cls # rest) =
     (case bind_protobuf st cls of
        Inl e \<Rightarrow> bind_all st rest
      | Inr (st', c) \<Rightarrow> bind_all st' rest)"

text \<open>The registrations of a sequence that reach a given descriptor.\<close>

definition registered_against :: "('o, 'm, 'd) klass list \<Rightarrow> 'd \<Rightarrow> ('o, 'm, 'd) klass list" where
  "registered_against clss d = filter (\<lambda>cls. get_protobuf_schema cls = Inr d) clss"

section \<open>Deserialisation\<close>




section \<open>Example classes\<close>

text \<open>
  The spec's scenario: a class \<^verbatim>\<open>Point{x:int, y:int}\<close> of module \<^verbatim>\<open>pkg\<close> with the
  descriptor \<^verbatim>\<open>PointPB\<close>, here with a small protobuf runtime: a point message is encoded
  as its two coordinates, one byte each, and the envelope as the type name, a zero byte
  and the content. Descriptors are given by their names.
\<close>

datatype point_pb = PointPB int int

record 'm point = "'m pyobject" +
  coord_x :: int
  coord_y :: int

definition demo_pb :: "point_pb protobuf" where
  "demo_pb =
     \<lparr>SerializeToString = (\<lambda>m. case m of PointPB a b \<Rightarrow> Inr [char_of a, char_of b]),
      DataMessage_SerializeToString = (\<lambda>blob. obj_type blob @ [CHR 0x00] @ content blob)\<rparr>"



definition Point :: "(point_pb point, point_pb, string) klass" where
  "Point =
     \<lparr>cls_module = ''pkg'', cls_name = ''Point'',
      object2proto_ovr = Some (\<lambda>p. Inr (PyMsg (PointPB (coord_x p) (coord_y p)))),
      proto2object_ovr =
        Some (\<lambda>v. case v of
                     PyMsg (PointPB a b) \<Rightarrow> Inr \<lparr>name = Inl AttributeError, coord_x = a, coord_y = b\<rparr>
                   | _ \<Rightarrow> Inl (OtherError ''TypeError'')),
      get_protobuf_schema_ovr = Some (Inr ''PointPB''),
      get_wrapped_type_ovr = None\<rparr>"

text \<open>A second class bound to the same descriptor.\<close>

definition Vector :: "(point_pb point, point_pb, string) klass" where
  "Vector = Point\<lparr>cls_name := ''Vector''\<rparr>"

text \<open>A class that overrides \<^verbatim>\<open>get_protobuf_schema\<close> and nothing else, and a class
  whose \<^verbatim>\<open>_object2proto\<close> returns bytes instead of a message.\<close>

definition Bare :: "(point_pb point, point_pb, string) klass" where
  "Bare =
     \<lparr>cls_module = ''pkg'', cls_name = ''Bare'',
      object2proto_ovr = None, proto2object_ovr = None,
      get_protobuf_schema_ovr = Some (Inr ''BarePB''),
      get_wrapped_type_ovr = None\<rparr>"

definition Raw :: "(point_pb point, point_pb, string) klass" where
  "Raw = Bare\<lparr>cls_name := ''Raw'', object2proto_ovr := Some (\<lambda>p. Inr (PyBytes ''raw''))\<rparr>"

definition point_1_2 :: "(point_pb point, point_pb, string) serializable" where
  "point_1_2 = \<lparr>klass_of = Point, self = \<lparr>name = Inl AttributeError, coord_x = 1, coord_y = 2\<rparr>\<rparr>"

definition point_named :: "(point_pb point, point_pb, string) serializable" where
  "point_named =
     \<lparr>klass_of = Point, self = \<lparr>name = Inr (PyStr ''origin''), coord_x = 1, coord_y = 2\<rparr>\<rparr>"

text \<open>A point whose \<^verbatim>\<open>name\<close> is a property that raises ValueError.\<close>

definition point_bad_name :: "(point_pb point, point_pb, string) serializable" where
  "point_bad_name =
     \<lparr>klass_of = Point,
      self = \<lparr>name = Inl (OtherError ''ValueError''), coord_x = 1, coord_y = 2\<rparr>\<rparr>"

definition raw_obj :: "(point_pb point, point_pb, string) serializable" where
  "raw_obj = \<lparr>klass_of = Raw, self = \<lparr>name = Inl AttributeError, coord_x = 0, coord_y = 0\<rparr>\<rparr>"

text \<open>A class that overrides nothing (\<^verbatim>\<open>class Plain(Serializable): pass\<close>).\<close>

definition Plain :: "(point_pb point, point_pb, string) klass" where
  "Plain =
     \<lparr>cls_module = ''pkg'', cls_name = ''Plain'',
      object2proto_ovr = None, proto2object_ovr = None,
      get_protobuf_schema_ovr = None, get_wrapped_type_ovr = None\<rparr>"

definition plain_obj :: "(point_pb point, point_pb, string) serializable" where
  "plain_obj = \<lparr>klass_of = Plain, self = \<lparr>name = Inl AttributeError, coord_x = 0, coord_y = 0\<rparr>\<rparr>"

section \<open>Evaluation of the examples\<close>

lemma object2proto_point_1_2: "object2proto point_1_2 = Inr (PyMsg (PointPB 1 2))"
  by (simp add: object2proto_def point_1_2_def Point_def)

lemma fqn_point_1_2: "get_fully_qualified_name point_1_2 = ''pkg.Point''"
  by (simp add: get_fully_qualified_name_def point_1_2_def Point_def)

lemma demo_pb_point: "SerializeToString demo_pb (PointPB 1 2) = Inr [CHR 0x01, CHR 0x02]"
  by (simp add: demo_pb_def char_of_def)

lemma serialize_point_1_2_bytes:
  "serialize demo_pb point_1_2 tp True = Inr (PyBytes (''pkg.Point'' @ [CHR 0x00, CHR 0x01, CHR 0x02]))"
  by (simp add: serialize_def object2proto_point_1_2 fqn_point_1_2 demo_pb_point)
    (simp add: demo_pb_def)

section \<open>The serialisation modes\<close>

text \<open>
  C6: with neither mode selected (\<^verbatim>\<open>to_proto=False\<close> and \<^verbatim>\<open>to_bytes=False\<close>),
  \<^verbatim>\<open>serialize\<close> raises the exception of its last branch, whatever the instance and
  the protobuf runtime; it returns no value.
\<close>

theorem serialize_no_mode: "serialize pb s False False = Inl NoModeSpecified"
  by (simp add: serialize_def traceback_and_raise_def)

text \<open>
  C1, as the code has it: with both flags set (\<^verbatim>\<open>to_proto=True\<close> and \<^verbatim>\<open>to_bytes=True\<close>)
  the \<^verbatim>\<open>to_bytes\<close> branch is taken. The call returns exactly what the bytes mode alone
  returns, on every call, and never a schema object.
\<close>

theorem serialize_both_modes_is_bytes_mode:
  "serialize pb s True True = serialize pb s False True
   \<and> (\<forall>m. serialize pb s True True \<noteq> Inr (PyMsg m))"
  by (simp add: serialize_def split: sum.split)

text \<open>The claim C1 as stated (the schema object takes precedence) fails on a point:
  the result is the envelope's bytes, not the message \<^verbatim>\<open>_object2proto\<close> returns.\<close>

theorem serialize_both_modes_counterexample:
  "object2proto point_1_2 = Inr (PyMsg (PointPB 1 2))
   \<and> serialize demo_pb point_1_2 True True
       = Inr (PyBytes (''pkg.Point'' @ [CHR 0x00, CHR 0x01, CHR 0x02]))
   \<and> serialize demo_pb point_1_2 True True \<noteq> object2proto point_1_2"
  by (simp add: serialize_point_1_2_bytes object2proto_point_1_2)

text \<open>
  C3: in bytes mode \<^verbatim>\<open>serialize\<close> returns a value exactly when \<^verbatim>\<open>_object2proto\<close>
  returns a message that the protobuf runtime serialises, and the value is then the
  byte encoding of the envelope whose \<^verbatim>\<open>obj_type\<close> is the fully-qualified name of the
  instance and whose \<^verbatim>\<open>content\<close> is the byte encoding of that message.
\<close>

theorem serialize_bytes_envelope:
  "(serialize pb s tp True = Inr r)
   = (\<exists>m b. object2proto s = Inr (PyMsg m) \<and> SerializeToString pb m = Inr b
        \<and> r = PyBytes (DataMessage_SerializeToString pb
                \<lparr>obj_type = get_fully_qualified_name s, content = b\<rparr>))"
proof (cases "object2proto s")
  case (Inl e)
  then show ?thesis by (simp add: serialize_def)
next
  case (Inr p)
  show ?thesis
  proof (cases p)
    case (PyMsg m)
    with Inr show ?thesis
      by (cases "SerializeToString pb m") (auto simp add: serialize_def)
  qed (use Inr in \<open>simp_all add: serialize_def\<close>)
qed

theorem serialize_bytes_envelope_witness:
  "serialize demo_pb point_1_2 False True
   = Inr (PyBytes (DataMessage_SerializeToString demo_pb
            \<lparr>obj_type = ''pkg.Point'', content = [CHR 0x01, CHR 0x02]\<rparr>))"
proof -
  have "\<exists>m b. object2proto point_1_2 = Inr (PyMsg m) \<and> SerializeToString demo_pb m = Inr b
          \<and> PyBytes (DataMessage_SerializeToString demo_pb
                \<lparr>obj_type = ''pkg.Point'', content = [CHR 0x01, CHR 0x02]\<rparr>)
            = PyBytes (DataMessage_SerializeToString demo_pb
                \<lparr>obj_type = get_fully_qualified_name point_1_2, content = b\<rparr>)"
    by (simp add: object2proto_point_1_2 demo_pb_point fqn_point_1_2)
  then show ?thesis
    by (rule serialize_bytes_envelope [THEN iffD2])
qed

section \<open>The convenience wrappers\<close>

text \<open>
  C7: \<^verbatim>\<open>to_proto()\<close> and \<^verbatim>\<open>proto()\<close> return \<^verbatim>\<open>serialize(to_proto=True)\<close> when it is a
  message, \<^verbatim>\<open>to_bytes()\<close> and \<^verbatim>\<open>binary()\<close> return \<^verbatim>\<open>serialize(to_bytes=True)\<close> when it
  is bytes; a value of another shape fails with TypeMismatch, an exception of
  \<^verbatim>\<open>serialize\<close> propagates, and the two aliases of each pair agree.
\<close>

theorem convenience_wrappers:
  "to_proto pb s =
     (case serialize pb s True False of
        Inl e \<Rightarrow> Inl e
      | Inr v \<Rightarrow> if isinstance v Message then Inr v else Inl TypeMismatch)
   \<and> proto pb s = to_proto pb s
   \<and> to_bytes pb s =
     (case serialize pb s True True of
        Inl e \<Rightarrow> Inl e
      | Inr v \<Rightarrow> if isinstance v Bytes then Inr v else Inl TypeMismatch)
   \<and> binary pb s = to_bytes pb s"
  by (simp add: to_proto_def proto_def to_bytes_def binary_def validate_type_def
      traceback_and_raise_def split: sum.split)

theorem convenience_wrappers_witness:
  "to_proto demo_pb point_1_2 = Inr (PyMsg (PointPB 1 2))
   \<and> proto demo_pb point_1_2 = Inr (PyMsg (PointPB 1 2))
   \<and> to_bytes demo_pb point_1_2 = Inr (PyBytes (''pkg.Point'' @ [CHR 0x00, CHR 0x01, CHR 0x02]))
   \<and> binary demo_pb point_1_2 = Inr (PyBytes (''pkg.Point'' @ [CHR 0x00, CHR 0x01, CHR 0x02]))
   \<and> to_proto demo_pb raw_obj = Inl TypeMismatch
   \<and> proto demo_pb raw_obj = Inl TypeMismatch"
proof -
  have a: "serialize demo_pb point_1_2 True False = Inr (PyMsg (PointPB 1 2))"
    by (simp add: serialize_def object2proto_point_1_2)
  have b: "serialize demo_pb raw_obj True False = Inr (PyBytes ''raw'')"
    by (simp add: serialize_def object2proto_def raw_obj_def Raw_def Bare_def)
  from convenience_wrappers [of demo_pb point_1_2] convenience_wrappers [of demo_pb raw_obj]
  show ?thesis
    by (simp add: a b serialize_point_1_2_bytes)
qed

section \<open>The base contract methods and \<^verbatim>\<open>named\<close>\<close>

text \<open>
  C5: the base versions of \<^verbatim>\<open>_object2proto\<close>, \<^verbatim>\<open>_proto2object\<close>,
  \<^verbatim>\<open>get_protobuf_schema\<close> and \<^verbatim>\<open>get_wrapped_type\<close> raise NotImplementedError, and so
  does a call of each on a class that did not override it; no default value is returned.
  \<^verbatim>\<open>get_wrapped_type\<close> returns a type only on a class that overrides it (a wrapper).
\<close>

theorem base_contract_methods_not_implemented:
  "Serializable_object2proto slf = Inl NotImplementedError
   \<and> Serializable_proto2object p = Inl NotImplementedError
   \<and> Serializable_get_protobuf_schema = Inl NotImplementedError
   \<and> Serializable_get_wrapped_type = Inl NotImplementedError
   \<and> (object2proto_ovr (klass_of s) = None \<longrightarrow> object2proto s = Inl NotImplementedError)
   \<and> (proto2object_ovr cls = None \<longrightarrow> proto2object cls p = Inl NotImplementedError)
   \<and> (get_protobuf_schema_ovr cls = None \<longrightarrow> get_protobuf_schema cls = Inl NotImplementedError)
   \<and> (get_wrapped_type_ovr cls = None \<longrightarrow> get_wrapped_type cls = Inl NotImplementedError)
   \<and> (get_wrapped_type cls = Inr t \<longrightarrow> get_wrapped_type_ovr cls = Some (Inr t))"
  by (auto simp add: Serializable_object2proto_def Serializable_proto2object_def
      Serializable_get_protobuf_schema_def Serializable_get_wrapped_type_def
      object2proto_def proto2object_def get_protobuf_schema_def get_wrapped_type_def
      traceback_and_raise_def split: option.splits)

theorem base_contract_methods_not_implemented_witness:
  "object2proto_ovr (klass_of plain_obj) = None
   \<and> object2proto plain_obj = Inl NotImplementedError
   \<and> proto2object_ovr Plain = None
   \<and> proto2object Plain (PyMsg (PointPB 1 2)) = Inl NotImplementedError
   \<and> get_protobuf_schema_ovr Plain = None
   \<and> get_protobuf_schema Plain = Inl NotImplementedError
   \<and> get_wrapped_type_ovr Plain = None
   \<and> get_wrapped_type Plain = Inl NotImplementedError"
proof -
  have o: "object2proto_ovr (klass_of plain_obj) = None" "proto2object_ovr Plain = None"
    "get_protobuf_schema_ovr Plain = None" "get_wrapped_type_ovr Plain = None"
    by (simp_all add: plain_obj_def Plain_def)
  from o base_contract_methods_not_implemented
    [where s = plain_obj and cls = Plain and p = "PyMsg (PointPB 1 2)"
      and slf = "self plain_obj" and t = "''int''"]
  show ?thesis by blast
qed

text \<open>
  C10, as the code has it: \<^verbatim>\<open>named\<close> returns the value of the attribute \<^verbatim>\<open>name\<close>
  when reading it returns, returns the string \<^verbatim>\<open>UNNAMED\<close> when reading it raises
  AttributeError (the instance has no such attribute), and raises what the attribute's
  getter raises in every other case.
\<close>

theorem named_reads_name:
  "named s =
     (case name (self s) of
        Inr v \<Rightarrow> Inr v
      | Inl e \<Rightarrow> if e = AttributeError then Inr (PyStr ''UNNAMED'') else Inl e)"
  by (simp add: named_def hasattr_name_def split: sum.split)

theorem named_reads_name_witness:
  "named point_named = Inr (PyStr ''origin'') \<and> named point_1_2 = Inr (PyStr ''UNNAMED'')"
  using named_reads_name [of point_named] named_reads_name [of point_1_2]
  by (simp add: point_named_def point_1_2_def)

text \<open>The claim C10 as stated (\<^verbatim>\<open>named\<close> never fails) does not hold of an instance
  whose \<^verbatim>\<open>name\<close> is a property raising ValueError: \<^verbatim>\<open>hasattr\<close> lets the exception
  through.\<close>

theorem named_never_fails_counterexample:
  "name (self point_bad_name) = Inl (OtherError ''ValueError'')
   \<and> hasattr_name (self point_bad_name) = Inl (OtherError ''ValueError'')
   \<and> named point_bad_name = Inl (OtherError ''ValueError'')"
  by (simp add: named_def hasattr_name_def point_bad_name_def)

section \<open>Registration\<close>

text \<open>What a sequence of registrations leaves on a descriptor, from any store: the
  descriptor keeps its state when no registration reaches it, holds the class when it
  had no attribute and exactly one registration reaches it, and holds Python's
  \<^verbatim>\<open>None\<close> in every other case.\<close>

lemma bind_protobuf_raises:
  "get_protobuf_schema cls = Inl e \<Longrightarrow> bind_protobuf st cls = Inl e"
  by (simp add: bind_protobuf_def)

lemma bind_protobuf_returns:
  "get_protobuf_schema cls = Inr d' \<Longrightarrow>
   bind_protobuf st cls =
     Inr (st(d' := (if st d' = None then Some (Some cls) else Some None)), cls)"
  by (simp add: bind_protobuf_def hasattr_schema2type_def)

lemma bind_all_at:
  "bind_all st clss d =
     (if registered_against clss d = [] then st d
      else if st d = None \<and> length (registered_against clss d) = 1
        then Some (Some (hd (registered_against clss d)))
        else Some None)"
proof (induction clss arbitrary: st)
  case Nil
  then show ?case by (simp add: registered_against_def)
next
  case (Cons cls rest)
  show ?case
  proof (cases "get_protobuf_schema cls")
    case (Inl e)
    then show ?thesis
      by (simp add: bind_protobuf_raises Cons.IH registered_against_def)
  next
    case (Inr d')
    let ?st' = "st(d' := (if st d' = None then Some (Some cls) else Some None))"
    have step: "bind_all st (cls # rest) d = bind_all ?st' rest d"
      by (simp add: bind_protobuf_returns [OF Inr])
    show ?thesis
    proof (cases "d' = d")
      case True
      have r: "registered_against (cls # rest) d = cls # registered_against rest d"
        using Inr True by (simp add: registered_against_def)
      have present: "?st' d \<noteq> None"
        using True by simp
      show ?thesis
      proof (cases "registered_against rest d = []")
        case True
        with \<open>d' = d\<close> show ?thesis
          by (simp add: step r Cons.IH del: bind_all.simps)
      next
        case False
        with present show ?thesis
          by (simp add: step r Cons.IH del: bind_all.simps)
      qed
    next
      case False
      have r: "registered_against (cls # rest) d = registered_against rest d"
        using Inr False by (auto simp add: registered_against_def)
      from False show ?thesis
        by (simp add: step r Cons.IH del: bind_all.simps)
    qed
  qed
qed

lemma two_members_length:
  "c1 \<in> set xs \<Longrightarrow> c2 \<in> set xs \<Longrightarrow> c1 \<noteq> c2 \<Longrightarrow> 2 \<le> length xs"
  by (cases xs; cases "tl xs") auto

text \<open>
  C2: after any sequence of \<^verbatim>\<open>bind_protobuf\<close> calls on a store where no descriptor
  had the attribute, \<^verbatim>\<open>schema2type\<close> of a descriptor is absent when no registration
  reached it, is the class when that class alone was registered against it, once, and is
  \<^verbatim>\<open>None\<close> otherwise; two distinct classes registered against the same descriptor
  leave \<^verbatim>\<open>None\<close>, never one of the two.
\<close>

theorem schema2type_unique_or_ambiguous:
  "(case bind_all no_schema2type clss d of
      None \<Rightarrow> registered_against clss d = []
    | Some None \<Rightarrow> 2 \<le> length (registered_against clss d)
    | Some (Some cls) \<Rightarrow> registered_against clss d = [cls])
   \<and> (\<forall>c1 \<in> set clss. \<forall>c2 \<in> set clss.
         c1 \<noteq> c2 \<and> get_protobuf_schema c1 = Inr d \<and> get_protobuf_schema c2 = Inr d
         \<longrightarrow> bind_all no_schema2type clss d = Some None)"
proof (intro conjI ballI impI)
  let ?r = "registered_against clss d"
  show "case bind_all no_schema2type clss d of
          None \<Rightarrow> ?r = []
        | Some None \<Rightarrow> 2 \<le> length ?r
        | Some (Some cls) \<Rightarrow> ?r = [cls]"
  proof (cases ?r)
    case Nil
    then show ?thesis by (simp add: bind_all_at no_schema2type_def)
  next
    case (Cons c cs)
    then show ?thesis
      by (cases cs) (simp_all add: bind_all_at no_schema2type_def)
  qed
next
  fix c1 c2
  assume "c1 \<in> set clss" "c2 \<in> set clss"
    and h: "c1 \<noteq> c2 \<and> get_protobuf_schema c1 = Inr d \<and> get_protobuf_schema c2 = Inr d"
  then have "c1 \<in> set (registered_against clss d)" "c2 \<in> set (registered_against clss d)"
    by (simp_all add: registered_against_def)
  with h have "2 \<le> length (registered_against clss d)"
    by (blast intro: two_members_length)
  then show "bind_all no_schema2type clss d = Some None"
    by (auto simp add: bind_all_at)
qed

theorem schema2type_unique_or_ambiguous_witness:
  "Point \<in> set [Point, Vector] \<and> Vector \<in> set [Point, Vector] \<and> Point \<noteq> Vector
   \<and> get_protobuf_schema Point = Inr ''PointPB''
   \<and> get_protobuf_schema Vector = Inr ''PointPB''
   \<and> bind_all no_schema2type [Point, Vector] ''PointPB'' = Some None"
proof -
  have ne: "Point \<noteq> Vector"
  proof
    assume "Point = Vector"
    then have "cls_name Point = cls_name Vector" by simp
    then show False by (simp add: Vector_def Point_def)
  qed
  have sp: "get_protobuf_schema Point = Inr ''PointPB''"
    by (simp add: get_protobuf_schema_def Point_def)
  have sv: "get_protobuf_schema Vector = Inr ''PointPB''"
    by (simp add: get_protobuf_schema_def Vector_def Point_def)
  have m: "Point \<in> set [Point, Vector]" "Vector \<in> set [Point, Vector]"
    by simp_all
  from schema2type_unique_or_ambiguous [of "[Point, Vector]" "''PointPB''"]
  have "\<forall>c1 \<in> set [Point, Vector]. \<forall>c2 \<in> set [Point, Vector].
         c1 \<noteq> c2 \<and> get_protobuf_schema c1 = Inr ''PointPB''
           \<and> get_protobuf_schema c2 = Inr ''PointPB''
         \<longrightarrow> bind_all no_schema2type [Point, Vector] ''PointPB'' = Some None"
    by (rule conjunct2)
  with m ne sp sv have "bind_all no_schema2type [Point, Vector] ''PointPB'' = Some None"
    by blast
  with m ne sp sv show ?thesis by blast
qed

text \<open>
  C9: registration is not idempotent. Once a class has been registered against a
  descriptor, from any store, any later registration of a class with the same
  descriptor (the same class included, and whatever was registered in between) leaves
  \<^verbatim>\<open>schema2type = None\<close> there, and no further registration changes that; a second
  \<^verbatim>\<open>bind_protobuf\<close> of the same class right after the first already does so.
\<close>

theorem bind_protobuf_not_idempotent:
  "(get_protobuf_schema cls = Inr d \<and> get_protobuf_schema cls' = Inr d
      \<longrightarrow> bind_all st (cls # between @ cls' # later) d = Some None)
   \<and> (st d = Some None \<longrightarrow> bind_all st later d = Some None)
   \<and> (get_protobuf_schema cls = Inr d \<and> bind_protobuf st cls = Inr (st1, c)
      \<longrightarrow> (\<exists>st2. bind_protobuf st1 cls = Inr (st2, cls) \<and> st2 d = Some None))"
proof (intro conjI impI)
  assume "get_protobuf_schema cls = Inr d \<and> get_protobuf_schema cls' = Inr d"
  then have "registered_against (cls # between @ cls' # later) d
      = cls # registered_against between d @ cls' # registered_against later d"
    by (simp add: registered_against_def)
  then show "bind_all st (cls # between @ cls' # later) d = Some None"
    by (simp add: bind_all_at del: bind_all.simps)
next
  assume "st d = Some None"
  then show "bind_all st later d = Some None"
    by (simp add: bind_all_at)
next
  assume h: "get_protobuf_schema cls = Inr d \<and> bind_protobuf st cls = Inr (st1, c)"
  then have "st1 d \<noteq> None"
    by (auto simp add: bind_protobuf_returns)
  with h show "\<exists>st2. bind_protobuf st1 cls = Inr (st2, cls) \<and> st2 d = Some None"
    by (simp add: bind_protobuf_returns)
qed

theorem bind_protobuf_not_idempotent_witness:
  "get_protobuf_schema Point = Inr ''PointPB''
   \<and> bind_all no_schema2type [Point] ''PointPB'' = Some (Some Point)
   \<and> bind_all no_schema2type [Point, Point] ''PointPB'' = Some None
   \<and> bind_all no_schema2type [Point, Bare, Point, Bare] ''PointPB'' = Some None"
proof -
  have sp: "get_protobuf_schema Point = Inr ''PointPB''"
    by (simp add: get_protobuf_schema_def Point_def)
  have one: "bind_all no_schema2type [Point] ''PointPB'' = Some (Some Point)"
    by (simp add: bind_protobuf_returns [OF sp] no_schema2type_def)
  from sp bind_protobuf_not_idempotent
    [where cls = Point and cls' = Point and d = "''PointPB''" and st = no_schema2type
      and between = "[]" and later = "[]"]
  have two: "bind_all no_schema2type [Point, Point] ''PointPB'' = Some None"
    by simp
  from sp bind_protobuf_not_idempotent
    [where cls = Point and cls' = Point and d = "''PointPB''" and st = no_schema2type
      and between = "[Bare]" and later = "[Bare]"]
  have four: "bind_all no_schema2type [Point, Bare, Point, Bare] ''PointPB'' = Some None"
    by simp
  from sp one two four show ?thesis by simp
qed

section \<open>Round trip\<close>













end
